theory Spec2Isabelle
  imports Main
begin

section \<open>The print service of \<^verbatim>\<open>backend/app.py\<close>\<close>

text \<open>
  The theory embeds the job-handling part of \<^verbatim>\<open>backend/app.py\<close>: the
  \<^verbatim>\<open>PrintJob\<close> table, \<^verbatim>\<open>_run_ipp_print\<close>, \<^verbatim>\<open>_async_mock_complete\<close>,
  \<^verbatim>\<open>submit_print\<close>, \<^verbatim>\<open>job_status\<close> and the \<^verbatim>\<open>auth_required\<close> decorator.

  Python strings are \<^typ>\<open>string\<close>; a value that may be \<^verbatim>\<open>None\<close> is an option.
  A character of the model is one of the 256 code points below \<^verbatim>\<open>0x100\<close>.
  What lies outside the file is a parameter of the model: the \<^verbatim>\<open>lp\<close> client
  (\<^verbatim>\<open>subprocess.check_output\<close>), \<^verbatim>\<open>secure_filename\<close>, \<^verbatim>\<open>jwt.decode\<close> and the
  clock. The two timestamp columns are left out; the database and the upload directory
  are taken to be available, so that session calls and \<^verbatim>\<open>f.save\<close> return.
\<close>

subsection \<open>String operations of Python used by the code\<close>

text \<open>\<^verbatim>\<open>str.isspace\<close> on one character, for the code points below 256.\<close>

definition py_isspace :: "char \<Rightarrow> bool" where
  "py_isspace c = ((of_char c :: nat) \<in> set [9, 10, 11, 12, 13, 28, 29, 30, 31, 32, 133, 160])"

text \<open>\<^verbatim>\<open>str.isdigit\<close> on one character: the ASCII digits and the superscripts 2, 3, 1.\<close>

definition py_isdigit_char :: "char \<Rightarrow> bool" where
  "py_isdigit_char c =
     ((48 \<le> (of_char c :: nat) \<and> (of_char c :: nat) \<le> 57) \<or> (of_char c :: nat) \<in> set [178, 179, 185])"

text \<open>\<^verbatim>\<open>s.isdigit()\<close>: at least one character, and every character a digit.\<close>

definition py_isdigit :: "string \<Rightarrow> bool" where
  "py_isdigit s = (s \<noteq> [] \<and> list_all py_isdigit_char s)"

text \<open>
  \<^verbatim>\<open>s.split()\<close>: the maximal runs of characters that are not whitespace, in order.
  The first argument is the run read so far.
\<close>

fun split_ws :: "string \<Rightarrow> string \<Rightarrow> string list" where
  "split_ws tok [] = (if tok = [] then [] else [tok])"
| "split_ws tok (c # cs) =
     (if py_isspace c
      then (if tok = [] then split_ws [] cs else tok # split_ws [] cs)
      else split_ws (tok @ [c]) cs)"

definition py_split :: "string \<Rightarrow> string list" where
  "py_split s = split_ws [] s"

text \<open>
  \<^verbatim>\<open>s.split(sep)\<close> for a separator of one character: the pieces between the
  occurrences of \<^verbatim>\<open>sep\<close>, empty pieces included; never the empty list.
\<close>

fun split_sep :: "char \<Rightarrow> string \<Rightarrow> string \<Rightarrow> string list" where
  "split_sep sep seg [] = [seg]"
| "split_sep sep seg (c # cs) =
     (if c = sep then seg # split_sep sep [] cs else split_sep sep (seg @ [c]) cs)"

definition py_split_on :: "char \<Rightarrow> string \<Rightarrow> string list" where
  "py_split_on sep s = split_sep sep [] s"

text \<open>\<^verbatim>\<open>s.strip()\<close>: whitespace removed at both ends.\<close>

definition py_strip :: "string \<Rightarrow> string" where
  "py_strip s = rev (dropWhile py_isspace (rev (dropWhile py_isspace s)))"

text \<open>\<^verbatim>\<open>str(n)\<close> for a natural number.\<close>

definition digit_char :: "nat \<Rightarrow> char" where
  "digit_char d = char_of (48 + d)"

fun str_of_nat :: "nat \<Rightarrow> string" where
  "str_of_nat n = (if n < 10 then [digit_char n] else str_of_nat (n div 10) @ [digit_char (n mod 10)])"

declare str_of_nat.simps [simp del]

text \<open>\<^verbatim>\<open>os.path.join(a, b)\<close> on a POSIX system.\<close>

definition path_join :: "string \<Rightarrow> string \<Rightarrow> string" where
  "path_join a b =
     (if b \<noteq> [] \<and> hd b = CHR ''/'' then b
      else if a = [] \<or> last a = CHR ''/'' then a @ b
      else a @ ''/'' @ b)"

text \<open>\<^verbatim>\<open>s.startswith(p)\<close>.\<close>

definition startswith :: "string \<Rightarrow> string \<Rightarrow> bool" where
  "startswith s p = (take (length p) s = p)"

text \<open>The truth value Python gives to a string that may be \<^verbatim>\<open>None\<close>.\<close>

fun truthy :: "string option \<Rightarrow> bool" where
  "truthy None = False"
| "truthy (Some s) = (s \<noteq> [])"

subsection \<open>Configuration and the job table\<close>

text \<open>The module-level settings read from the environment.\<close>

record config =
  ENABLE_IPP :: bool
  PRINTER_URI :: string
  PRINTER_NAME :: string
  UPLOAD_DIR :: string

text \<open>
  A row of \<^verbatim>\<open>print_jobs\<close> without its primary key: the table is a map from the
  key \<^verbatim>\<open>id\<close> to the row.
\<close>

record PrintJob =
  user_id :: int
  filename :: string
  status :: string
  error :: "string option"
  ipp_job_id :: "string option"

text \<open>The table and the next value of its serial key.\<close>

record store =
  jobs :: "nat \<rightharpoonup> PrintJob"
  next_id :: nat

subsection \<open>\<^verbatim>\<open>_run_ipp_print\<close>\<close>

text \<open>
  What \<^verbatim>\<open>subprocess.check_output\<close> does with the command: it returns the output of
  a client that exits with 0, raises \<^verbatim>\<open>CalledProcessError\<close> carrying the output of
  a client that exits with another code, or raises another exception, whose
  \<^verbatim>\<open>str\<close> is kept.
\<close>

datatype lp_result = Exit_ok string | Exit_nonzero string | Raised string

text \<open>The test of the loop: \<^verbatim>\<open>"-" in part and part.split("-")[-1].isdigit()\<close>.\<close>

definition id_token :: "string \<Rightarrow> bool" where
  "id_token part = (CHR ''-'' \<in> set part \<and> py_isdigit (last (py_split_on CHR ''-'' part)))"

text \<open>The loop over \<^verbatim>\<open>out.split()\<close>, left at the first part that passes the test.\<close>

fun scan_parts :: "string list \<Rightarrow> string option" where
  "scan_parts [] = None"
| "scan_parts (part # rest) =
     (if id_token part then Some (py_strip part) else scan_parts rest)"

definition run_ipp_print ::
  "config \<Rightarrow> (string list \<Rightarrow> lp_result) \<Rightarrow> string \<Rightarrow> string option \<times> string option" where
  "run_ipp_print cfg lp local_path =
     (if \<not> ENABLE_IPP cfg then (None, None)
      else if PRINTER_NAME cfg \<noteq> [] then
        (case lp [''lp'', ''-d'', PRINTER_NAME cfg, local_path] of
           Exit_ok out \<Rightarrow> (scan_parts (py_split out), None)
         | Exit_nonzero out \<Rightarrow> (None, Some (''lp failed: '' @ out))
         | Raised msg \<Rightarrow> (None, Some msg))
      else if PRINTER_URI cfg \<noteq> [] then
        (case lp [''lp'', ''-o'', ''printer-uri-supported='' @ PRINTER_URI cfg, local_path] of
           Exit_ok out \<Rightarrow> (scan_parts (py_split out), None)
         | Exit_nonzero out \<Rightarrow> (None, Some (''lp failed: '' @ out))
         | Raised msg \<Rightarrow> (None, Some msg))
      else (None, Some ''No PRINTER_URI or PRINTER_NAME configured''))"

subsection \<open>Responses and \<^verbatim>\<open>auth_required\<close>\<close>

text \<open>
  The JSON bodies the handlers return; a response is a body with its HTTP status.
  \<^verbatim>\<open>Job_json\<close> carries \<^verbatim>\<open>id\<close>, \<^verbatim>\<open>filename\<close>, \<^verbatim>\<open>status\<close>, \<^verbatim>\<open>error\<close> and
  \<^verbatim>\<open>ipp_job_id\<close>.
\<close>

datatype body =
    Error_json string
  | Job_id_json nat
  | Job_json nat string string "string option" "string option"

type_synonym response = "body \<times> nat"

text \<open>
  The decorator: the handler runs only with a header \<^verbatim>\<open>Bearer <token>\<close> whose token
  decodes. \<^verbatim>\<open>jwt_decode\<close> gives the \<^verbatim>\<open>sub\<close> and \<^verbatim>\<open>username\<close> of a token that
  \<^verbatim>\<open>jwt.decode\<close> accepts, and \<^verbatim>\<open>None\<close> where the \<^verbatim>\<open>try\<close> block raises.
\<close>

definition auth_required ::
  "(string \<Rightarrow> (int \<times> string) option) \<Rightarrow> string \<Rightarrow> response + (int \<times> string)" where
  "auth_required jwt_decode auth =
     (if \<not> startswith auth ''Bearer '' then Inl (Error_json ''Unauthorized'', 401)
      else (case jwt_decode (drop 7 auth) of
              None \<Rightarrow> Inl (Error_json ''Invalid token'', 401)
            | Some (uid, username) \<Rightarrow> Inr (uid, username)))"

subsection \<open>\<^verbatim>\<open>_async_mock_complete\<close>\<close>

text \<open>After the sleep: the row, when it exists, gets the status \<^verbatim>\<open>completed\<close>.\<close>

definition async_mock_complete :: "nat \<Rightarrow> store \<Rightarrow> store" where
  "async_mock_complete job_id s =
     (case jobs s job_id of
        None \<Rightarrow> s
      | Some job \<Rightarrow> s\<lparr>jobs := (jobs s)(job_id \<mapsto> job\<lparr>status := ''completed''\<rparr>)\<rparr>)"

subsection \<open>\<^verbatim>\<open>submit_print\<close>\<close>

text \<open>What the handler takes from outside for one request.\<close>

record env =
  jwt_decode :: "string \<Rightarrow> (int \<times> string) option"
  secure_filename :: "string \<Rightarrow> string"
  now :: nat
  lp :: "string list \<Rightarrow> lp_result"

text \<open>
  The request: the \<^verbatim>\<open>Authorization\<close> header (empty when absent) and the filename of
  the part \<^verbatim>\<open>file\<close> (\<^verbatim>\<open>None\<close> when the request has no such part).
\<close>

record print_request =
  authorization :: string
  file_field :: "string option"

text \<open>The first session: a row with status \<^verbatim>\<open>queued\<close> under a new key.\<close>

definition create_job :: "int \<Rightarrow> string \<Rightarrow> store \<Rightarrow> nat \<times> store" where
  "create_job uid fname s =
     (next_id s,
      s\<lparr>jobs := (jobs s)(next_id s \<mapsto>
            \<lparr>user_id = uid, filename = fname, status = ''queued'', error = None, ipp_job_id = None\<rparr>),
        next_id := Suc (next_id s)\<rparr>)"

text \<open>\<^verbatim>\<open>x or ""\<close>.\<close>

fun or_empty :: "string option \<Rightarrow> string" where
  "or_empty None = []"
| "or_empty (Some x) = (if x \<noteq> [] then x else [])"

text \<open>The second session of the IPP branch, which writes down what the client gave.\<close>

definition record_outcome :: "nat \<Rightarrow> string option \<times> string option \<Rightarrow> store \<Rightarrow> store" where
  "record_outcome job_id r s =
     (case r of (ipp_id, err) \<Rightarrow>
        (case jobs s job_id of
           None \<Rightarrow> s
         | Some job \<Rightarrow>
             (if truthy err
              then s\<lparr>jobs := (jobs s)(job_id \<mapsto> job\<lparr>status := ''failed'', error := err\<rparr>)\<rparr>
              else s\<lparr>jobs := (jobs s)(job_id \<mapsto>
                       job\<lparr>status := ''printing'', ipp_job_id := Some (or_empty ipp_id)\<rparr>)\<rparr>)))"

text \<open>The path the upload is saved under.\<close>

definition upload_path :: "config \<Rightarrow> nat \<Rightarrow> string \<Rightarrow> string" where
  "upload_path cfg t fname = path_join (UPLOAD_DIR cfg) (str_of_nat t @ ''_'' @ fname)"

text \<open>
  The handler with its decorator. The result is the response, the table afterwards, and
  the job whose completion thread was started, if one was.
\<close>

definition submit_print ::
  "config \<Rightarrow> env \<Rightarrow> print_request \<Rightarrow> store \<Rightarrow> response \<times> store \<times> nat option" where
  "submit_print cfg e req s =
     (case auth_required (jwt_decode e) (authorization req) of
        Inl r \<Rightarrow> (r, s, None)
      | Inr (uid, username) \<Rightarrow>
          (case file_field req of
             None \<Rightarrow> ((Error_json ''file is required'', 400), s, None)
           | Some f_filename \<Rightarrow>
               (if f_filename = [] then ((Error_json ''empty filename'', 400), s, None)
                else
                  (let fname = secure_filename e f_filename;
                       path = upload_path cfg (now e) fname;
                       (job_id, s1) = create_job uid fname s
                   in if ENABLE_IPP cfg
                      then ((Job_id_json job_id, 200),
                            record_outcome job_id (run_ipp_print cfg (lp e) path) s1, None)
                      else ((Job_id_json job_id, 200), s1, Some job_id)))))"

subsection \<open>\<^verbatim>\<open>job_status\<close>\<close>

text \<open>The query \<^verbatim>\<open>filter_by(id=job_id, user_id=request.user_id).first()\<close>.\<close>

definition query_job :: "store \<Rightarrow> nat \<Rightarrow> int \<Rightarrow> PrintJob option" where
  "query_job s job_id uid =
     (case jobs s job_id of
        None \<Rightarrow> None
      | Some job \<Rightarrow> (if user_id job = uid then Some job else None))"

definition job_status ::
  "(string \<Rightarrow> (int \<times> string) option) \<Rightarrow> string \<Rightarrow> nat \<Rightarrow> store \<Rightarrow> response" where
  "job_status decode auth job_id s =
     (case auth_required decode auth of
        Inl r \<Rightarrow> r
      | Inr (uid, username) \<Rightarrow>
          (case query_job s job_id uid of
             None \<Rightarrow> (Error_json ''not found'', 404)
           | Some job \<Rightarrow>
               (Job_json job_id (filename job) (status job) (error job) (ipp_job_id job), 200)))"

subsection \<open>The running service\<close>

text \<open>
  Requests are served by threads that run side by side, so the two sessions of
  \<^verbatim>\<open>submit_print\<close> are two steps of the service, and other steps may come between
  them. The state holds the table, the requests that have committed their new row and
  are still inside \<^verbatim>\<open>_run_ipp_print\<close> (with the path they saved), and the jobs for which
  a thread running \<^verbatim>\<open>_async_mock_complete\<close> was started.
\<close>

record system =
  db :: store
  dispatching :: "nat \<rightharpoonup> string"
  scheduled :: "nat set"

definition init_system :: system where
  "init_system = \<lparr>db = \<lparr>jobs = Map.empty, next_id = 1\<rparr>, dispatching = Map.empty, scheduled = {}\<rparr>"

text \<open>
  The steps, for the settings \<^verbatim>\<open>cfg\<close> of the process. A completion may fire again for
  a job it has fired for: the state keeps the job in \<^verbatim>\<open>scheduled\<close>, which covers a
  signal that is repeated or that races with another one. A status query changes nothing
  and is no step.
\<close>

inductive step :: "config \<Rightarrow> system \<Rightarrow> system \<Rightarrow> bool" for cfg :: config where
  accept_ipp:
    "ENABLE_IPP cfg \<Longrightarrow> create_job uid fname (db sys) = (job_id, s1) \<Longrightarrow>
     step cfg sys (sys\<lparr>db := s1, dispatching := (dispatching sys)(job_id \<mapsto> path)\<rparr>)"
| accept_mock:
    "\<not> ENABLE_IPP cfg \<Longrightarrow> create_job uid fname (db sys) = (job_id, s1) \<Longrightarrow>
     step cfg sys (sys\<lparr>db := s1, scheduled := insert job_id (scheduled sys)\<rparr>)"
| dispatch_done:
    "dispatching sys job_id = Some path \<Longrightarrow>
     step cfg sys (sys\<lparr>db := record_outcome job_id (run_ipp_print cfg client path) (db sys),
                       dispatching := (dispatching sys)(job_id := None)\<rparr>)"
| completion:
    "job_id \<in> scheduled sys \<Longrightarrow>
     step cfg sys (sys\<lparr>db := async_mock_complete job_id (db sys)\<rparr>)"

inductive reachable :: "config \<Rightarrow> system \<Rightarrow> bool" for cfg :: config where
  reachable_init: "reachable cfg init_system"
| reachable_step: "reachable cfg sys \<Longrightarrow> step cfg sys sys' \<Longrightarrow> reachable cfg sys'"

text \<open>What holds of every row in every state the service reaches.\<close>

definition row_ok :: "config \<Rightarrow> system \<Rightarrow> nat \<Rightarrow> PrintJob \<Rightarrow> bool" where
  "row_ok cfg sys job_id job =
     (job_id < next_id (db sys)
      \<and> (truthy (error job) \<longleftrightarrow> status job = ''failed'')
      \<and> (job_id \<in> dom (dispatching sys) \<longrightarrow> status job = ''queued'')
      \<and> (job_id \<in> scheduled sys \<longrightarrow> (status job = ''queued'' \<or> status job = ''completed'')))"

definition system_ok :: "config \<Rightarrow> system \<Rightarrow> bool" where
  "system_ok cfg sys =
     ((ENABLE_IPP cfg \<longrightarrow> scheduled sys = {})
      \<and> (\<not> ENABLE_IPP cfg \<longrightarrow> dispatching sys = Map.empty)
      \<and> (\<forall>job_id job. jobs (db sys) job_id = Some job \<longrightarrow> row_ok cfg sys job_id job))"

subsection \<open>Inputs used in the examples\<close>

text \<open>
  A token decoder that knows two users, and a stand-in for \<^verbatim>\<open>secure_filename\<close> that
  removes leading dots; like werkzeug's function it keeps \<^verbatim>\<open>a.pdf\<close> and turns
  \<^verbatim>\<open>..\<close> into the empty string.
\<close>

definition ex_decode :: "string \<Rightarrow> (int \<times> string) option" where
  "ex_decode t =
     (if t = ''tok-a'' then Some (1, ''alice'')
      else if t = ''tok-b'' then Some (2, ''bob'')
      else None)"

definition ex_sanitize :: "string \<Rightarrow> string" where
  "ex_sanitize n = dropWhile (\<lambda>c. c = CHR ''.'') n"

definition ex_env :: "lp_result \<Rightarrow> env" where
  "ex_env r = \<lparr>jwt_decode = ex_decode, secure_filename = ex_sanitize, now = 17, lp = (\<lambda>cmd. r)\<rparr>"

definition ex_request :: "string \<Rightarrow> print_request" where
  "ex_request n = \<lparr>authorization = ''Bearer tok-a'', file_field = Some n\<rparr>"

definition ex_ipp :: "string \<Rightarrow> config" where
  "ex_ipp printer =
     \<lparr>ENABLE_IPP = True, PRINTER_URI = [], PRINTER_NAME = printer, UPLOAD_DIR = ''/data/uploads''\<rparr>"

definition ex_mock :: config where
  "ex_mock = \<lparr>ENABLE_IPP = False, PRINTER_URI = [], PRINTER_NAME = [], UPLOAD_DIR = ''/data/uploads''\<rparr>"

definition empty_store :: store where
  "empty_store = \<lparr>jobs = Map.empty, next_id = 1\<rparr>"


text \<open>
  Two runs of the service on one upload of user 1: with \<^verbatim>\<open>ENABLE_IPP\<close> and no printer,
  and with the simulated backend.
\<close>

definition ex_queued_ipp :: system where
  "ex_queued_ipp =
     init_system\<lparr>db := snd (create_job 1 ''a.pdf'' (db init_system)),
                 dispatching := (dispatching init_system)(1 \<mapsto> ''/data/uploads/17_a.pdf'')\<rparr>"

definition ex_failed :: system where
  "ex_failed =
     ex_queued_ipp\<lparr>db := record_outcome 1
                           (run_ipp_print (ex_ipp []) (\<lambda>cmd. Exit_ok []) ''/data/uploads/17_a.pdf'')
                           (db ex_queued_ipp),
                   dispatching := (dispatching ex_queued_ipp)(1 := None)\<rparr>"

definition ex_queued_mock :: system where
  "ex_queued_mock =
     init_system\<lparr>db := snd (create_job 1 ''a.pdf'' (db init_system)),
                 scheduled := insert 1 (scheduled init_system)\<rparr>"

definition ex_completed :: system where
  "ex_completed = ex_queued_mock\<lparr>db := async_mock_complete 1 (db ex_queued_mock)\<rparr>"

section \<open>Properties\<close>

subsection \<open>Facts about the string operations\<close>

lemma split_ws_tokens:
  "\<forall>c \<in> set tok. \<not> py_isspace c \<Longrightarrow> t \<in> set (split_ws tok cs) \<Longrightarrow>
   t \<noteq> [] \<and> (\<forall>c \<in> set t. \<not> py_isspace c)"
proof (induction cs arbitrary: tok)
  case Nil
  then show ?case by (cases "tok = []") simp_all
next
  case (Cons c cs)
  show ?case
  proof (cases "py_isspace c")
    case True
    show ?thesis
    proof (cases "tok = []")
      case e: True
      with True Cons.prems have "t \<in> set (split_ws [] cs)" by simp
      then show ?thesis using Cons.IH [of "[]"] by simp
    next
      case ne: False
      with True Cons.prems have "t = tok \<or> t \<in> set (split_ws [] cs)" by simp
      then show ?thesis
      proof
        assume "t = tok"
        with ne Cons.prems(1) show ?thesis by simp
      next
        assume "t \<in> set (split_ws [] cs)"
        then show ?thesis using Cons.IH [of "[]"] by simp
      qed
    qed
  next
    case False
    with Cons.prems have m: "t \<in> set (split_ws (tok @ [c]) cs)" by simp
    from False Cons.prems(1) have "\<forall>x \<in> set (tok @ [c]). \<not> py_isspace x" by simp
    then show ?thesis using m by (rule Cons.IH)
  qed
qed

lemma py_split_tokens:
  "t \<in> set (py_split s) \<Longrightarrow> t \<noteq> [] \<and> (\<forall>c \<in> set t. \<not> py_isspace c)"
  unfolding py_split_def using split_ws_tokens [of "[]" t s] by simp

lemma dropWhile_none: "\<forall>c \<in> set t. \<not> P c \<Longrightarrow> dropWhile P t = t"
  by (cases t) simp_all

lemma py_strip_no_space: "\<forall>c \<in> set t. \<not> py_isspace c \<Longrightarrow> py_strip t = t"
proof -
  assume a: "\<forall>c \<in> set t. \<not> py_isspace c"
  then have "dropWhile py_isspace t = t" by (rule dropWhile_none)
  moreover from a have "\<forall>c \<in> set (rev t). \<not> py_isspace c" by simp
  then have "dropWhile py_isspace (rev t) = rev t" by (rule dropWhile_none)
  ultimately show ?thesis by (simp add: py_strip_def)
qed

subsection \<open>Facts about one submission\<close>

lemma scan_parts_none: "(scan_parts parts = None) = (\<forall>t \<in> set parts. \<not> id_token t)"
  by (induction parts) simp_all

lemma scan_parts_first:
  "\<forall>p \<in> set pre. \<not> id_token p \<Longrightarrow> id_token t \<Longrightarrow> scan_parts (pre @ t # post) = Some (py_strip t)"
  by (induction pre) simp_all

lemma submit_print_response:
  assumes "auth_required (jwt_decode e) (authorization req) = Inr (uid, uname)"
    and "file_field req = Some f" and "f \<noteq> []"
  shows "fst (submit_print cfg e req s) = (Job_id_json (next_id s), 200)"
  using assms by (simp add: submit_print_def create_job_def Let_def)

lemma submit_print_ipp:
  assumes "auth_required (jwt_decode e) (authorization req) = Inr (uid, uname)"
    and "file_field req = Some f" and "f \<noteq> []" and "ENABLE_IPP cfg"
  shows "snd (submit_print cfg e req s) =
         (record_outcome (next_id s)
            (run_ipp_print cfg (lp e) (upload_path cfg (now e) (secure_filename e f)))
            (snd (create_job uid (secure_filename e f) s)), None)"
  using assms by (simp add: submit_print_def create_job_def Let_def)

lemma submit_print_mock:
  assumes "auth_required (jwt_decode e) (authorization req) = Inr (uid, uname)"
    and "file_field req = Some f" and "f \<noteq> []" and "\<not> ENABLE_IPP cfg"
  shows "snd (submit_print cfg e req s) =
         (snd (create_job uid (secure_filename e f) s), Some (next_id s))"
  using assms by (simp add: submit_print_def create_job_def Let_def)

lemma create_job_row:
  "jobs (snd (create_job uid fname s)) (next_id s) =
   Some \<lparr>user_id = uid, filename = fname, status = ''queued'', error = None, ipp_job_id = None\<rparr>"
  by (simp add: create_job_def)

lemma create_job_others: "k \<noteq> next_id s \<Longrightarrow> jobs (snd (create_job uid fname s)) k = jobs s k"
  by (simp add: create_job_def)

lemma record_outcome_row:
  "jobs (record_outcome (next_id s) (i, er) (snd (create_job uid fname s))) (next_id s) =
   Some (if truthy er
         then \<lparr>user_id = uid, filename = fname, status = ''failed'', error = er, ipp_job_id = None\<rparr>
         else \<lparr>user_id = uid, filename = fname, status = ''printing'', error = None,
               ipp_job_id = Some (or_empty i)\<rparr>)"
  by (simp add: record_outcome_def create_job_def)

lemma record_outcome_others: "k \<noteq> job_id \<Longrightarrow> jobs (record_outcome job_id r s) k = jobs s k"
  by (cases r) (simp add: record_outcome_def split: option.splits)

lemma run_ipp_print_cases:
  assumes "ENABLE_IPP cfg" and "PRINTER_NAME cfg \<noteq> [] \<or> PRINTER_URI cfg \<noteq> []"
    and "\<And>cmd. client cmd = r"
  shows "run_ipp_print cfg client path =
         (case r of
            Exit_ok out \<Rightarrow> (scan_parts (py_split out), None)
          | Exit_nonzero out \<Rightarrow> (None, Some (''lp failed: '' @ out))
          | Raised msg \<Rightarrow> (None, Some msg))"
  using assms by (auto simp add: run_ipp_print_def)

lemma ex_auth:
  "auth_required (jwt_decode (ex_env r)) (authorization (ex_request n)) = Inr (1, ''alice'')"
  by (simp add: auth_required_def ex_env_def ex_request_def ex_decode_def startswith_def)

subsection \<open>Claims about the Protocol Backend\<close>

text \<open>
  Claim C7. With \<^verbatim>\<open>ENABLE_IPP\<close> set and neither \<^verbatim>\<open>PRINTER_NAME\<close> nor \<^verbatim>\<open>PRINTER_URI\<close>
  configured, a valid submission still gets its job id back with status 200, and the
  job it created is \<^verbatim>\<open>failed\<close> with the configuration message in \<^verbatim>\<open>error\<close>.
\<close>

theorem no_printer_configured_fails:
  assumes "auth_required (jwt_decode e) (authorization req) = Inr (uid, uname)"
    and "file_field req = Some f" and "f \<noteq> []"
    and "ENABLE_IPP cfg" and "PRINTER_NAME cfg = []" and "PRINTER_URI cfg = []"
  shows "fst (submit_print cfg e req s) = (Job_id_json (next_id s), 200) \<and>
         jobs (fst (snd (submit_print cfg e req s))) (next_id s) =
           Some \<lparr>user_id = uid, filename = secure_filename e f, status = ''failed'',
                 error = Some ''No PRINTER_URI or PRINTER_NAME configured'', ipp_job_id = None\<rparr>"
proof -
  have "run_ipp_print cfg (lp e) (upload_path cfg (now e) (secure_filename e f)) =
        (None, Some ''No PRINTER_URI or PRINTER_NAME configured'')"
    using assms(4-6) by (simp add: run_ipp_print_def)
  then show ?thesis
    using submit_print_response [OF assms(1-3)] submit_print_ipp [OF assms(1-4)]
    by (simp add: record_outcome_row)
qed

theorem no_printer_configured_fails_witness:
  "fst (submit_print (ex_ipp []) (ex_env (Exit_ok [])) (ex_request ''a.pdf'') empty_store) =
     (Job_id_json 1, 200) \<and>
   jobs (fst (snd (submit_print (ex_ipp []) (ex_env (Exit_ok [])) (ex_request ''a.pdf'') empty_store))) 1 =
     Some \<lparr>user_id = 1, filename = ''a.pdf'', status = ''failed'',
           error = Some ''No PRINTER_URI or PRINTER_NAME configured'', ipp_job_id = None\<rparr>"
proof -
  have f: "file_field (ex_request ''a.pdf'') = Some ''a.pdf''" by (simp add: ex_request_def)
  have n: "''a.pdf'' \<noteq> []" by simp
  have c: "ENABLE_IPP (ex_ipp [])" "PRINTER_NAME (ex_ipp []) = []" "PRINTER_URI (ex_ipp []) = []"
    by (simp_all add: ex_ipp_def)
  show ?thesis
    using no_printer_configured_fails [OF ex_auth [of "Exit_ok []" "''a.pdf''"] f n c, where s = empty_store]
    by (simp add: empty_store_def ex_env_def ex_sanitize_def)
qed

text \<open>
  Claim C8. When the client exits with 0 and no part of its output passes the test of
  the loop, the job is \<^verbatim>\<open>printing\<close>, its \<^verbatim>\<open>error\<close> stays \<^verbatim>\<open>None\<close> and its
  \<^verbatim>\<open>ipp_job_id\<close> is the empty string.
\<close>

theorem no_id_token_still_printing:
  assumes "auth_required (jwt_decode e) (authorization req) = Inr (uid, uname)"
    and "file_field req = Some f" and "f \<noteq> []"
    and "ENABLE_IPP cfg" and "PRINTER_NAME cfg \<noteq> [] \<or> PRINTER_URI cfg \<noteq> []"
    and "\<And>cmd. lp e cmd = Exit_ok out"
    and "\<forall>t \<in> set (py_split out). \<not> id_token t"
  shows "fst (submit_print cfg e req s) = (Job_id_json (next_id s), 200) \<and>
         jobs (fst (snd (submit_print cfg e req s))) (next_id s) =
           Some \<lparr>user_id = uid, filename = secure_filename e f, status = ''printing'',
                 error = None, ipp_job_id = Some []\<rparr>"
proof -
  have "scan_parts (py_split out) = None" using assms(7) by (simp add: scan_parts_none)
  then have "run_ipp_print cfg (lp e) (upload_path cfg (now e) (secure_filename e f)) = (None, None)"
    using run_ipp_print_cases [OF assms(4,5), of "lp e" "Exit_ok out"] assms(6) by simp
  then show ?thesis
    using submit_print_response [OF assms(1-3)] submit_print_ipp [OF assms(1-4)]
    by (simp add: record_outcome_row)
qed

theorem no_id_token_still_printing_witness:
  "fst (submit_print (ex_ipp ''HP'') (ex_env (Exit_ok ''job sent'')) (ex_request ''a.pdf'') empty_store) =
     (Job_id_json 1, 200) \<and>
   jobs (fst (snd (submit_print (ex_ipp ''HP'') (ex_env (Exit_ok ''job sent'')) (ex_request ''a.pdf'')
       empty_store))) 1 =
     Some \<lparr>user_id = 1, filename = ''a.pdf'', status = ''printing'', error = None,
           ipp_job_id = Some []\<rparr>"
proof -
  have f: "file_field (ex_request ''a.pdf'') = Some ''a.pdf''" by (simp add: ex_request_def)
  have n: "''a.pdf'' \<noteq> []" by simp
  have c: "ENABLE_IPP (ex_ipp ''HP'')" by (simp add: ex_ipp_def)
  have p: "PRINTER_NAME (ex_ipp ''HP'') \<noteq> [] \<or> PRINTER_URI (ex_ipp ''HP'') \<noteq> []"
    by (simp add: ex_ipp_def)
  have l: "\<And>cmd. lp (ex_env (Exit_ok ''job sent'')) cmd = Exit_ok ''job sent''"
    by (simp add: ex_env_def)
  have t: "\<forall>t \<in> set (py_split ''job sent''). \<not> id_token t"
    by (simp add: py_split_def py_isspace_def id_token_def)
  show ?thesis
    using no_id_token_still_printing [OF ex_auth [of "Exit_ok ''job sent''" "''a.pdf''"] f n c p l t, where s = empty_store]
    by (simp add: empty_store_def ex_env_def ex_sanitize_def)
qed

text \<open>
  What the two failure branches of \<^verbatim>\<open>_run_ipp_print\<close> leave on the job: a client that
  exits with another code than 0 gives \<^verbatim>\<open>failed\<close> with \<^verbatim>\<open>lp failed: \<close> and the captured
  output, and another exception gives \<^verbatim>\<open>failed\<close> with its message when the message is
  not empty.
\<close>

lemma client_failure_recorded:
  assumes "auth_required (jwt_decode e) (authorization req) = Inr (uid, uname)"
    and "file_field req = Some f" and "f \<noteq> []"
    and "ENABLE_IPP cfg" and "PRINTER_NAME cfg \<noteq> [] \<or> PRINTER_URI cfg \<noteq> []"
    and "\<And>cmd. lp e cmd = r"
    and "r = Exit_nonzero out \<and> msg = ''lp failed: '' @ out \<or> r = Raised msg \<and> msg \<noteq> []"
  shows "jobs (fst (snd (submit_print cfg e req s))) (next_id s) =
           Some \<lparr>user_id = uid, filename = secure_filename e f, status = ''failed'',
                 error = Some msg, ipp_job_id = None\<rparr>"
proof -
  have "run_ipp_print cfg (lp e) (upload_path cfg (now e) (secure_filename e f)) = (None, Some msg)"
    using run_ipp_print_cases [OF assms(4,5), of "lp e" r] assms(6,7) by auto
  moreover have "msg \<noteq> []" using assms(7) by auto
  ultimately show ?thesis
    using submit_print_ipp [OF assms(1-4)] by (simp add: record_outcome_row)
qed

text \<open>
  Claim C3. The claim says that every fault of the client ends in \<^verbatim>\<open>failed\<close>, never in
  \<^verbatim>\<open>printing\<close>. \<^verbatim>\<open>submit_print\<close> tests \<^verbatim>\<open>if err:\<close>, so an exception whose \<^verbatim>\<open>str\<close>
  is empty is taken for a success: the job below is \<^verbatim>\<open>printing\<close> with an empty
  \<^verbatim>\<open>ipp_job_id\<close> and no \<^verbatim>\<open>error\<close>.
\<close>

theorem empty_fault_message_gives_printing:
  "jobs (fst (snd (submit_print (ex_ipp ''HP'') (ex_env (Raised [])) (ex_request ''a.pdf'')
       empty_store))) 1 =
     Some \<lparr>user_id = 1, filename = ''a.pdf'', status = ''printing'', error = None,
           ipp_job_id = Some []\<rparr>"
proof -
  have f: "file_field (ex_request ''a.pdf'') = Some ''a.pdf''" by (simp add: ex_request_def)
  have n: "''a.pdf'' \<noteq> []" by simp
  have c: "ENABLE_IPP (ex_ipp ''HP'')" by (simp add: ex_ipp_def)
  have p: "PRINTER_NAME (ex_ipp ''HP'') \<noteq> [] \<or> PRINTER_URI (ex_ipp ''HP'') \<noteq> []"
    by (simp add: ex_ipp_def)
  have l: "\<And>cmd. lp (ex_env (Raised [])) cmd = Raised []" by (simp add: ex_env_def)
  have "run_ipp_print (ex_ipp ''HP'') (lp (ex_env (Raised []))) path = (None, Some [])" for path
    using run_ipp_print_cases [OF c p l] by simp
  then have "jobs (fst (snd (submit_print (ex_ipp ''HP'') (ex_env (Raised [])) (ex_request ''a.pdf'')
       empty_store))) (next_id empty_store) =
     Some \<lparr>user_id = 1, filename = secure_filename (ex_env (Raised [])) ''a.pdf'',
           status = ''printing'', error = None, ipp_job_id = Some []\<rparr>"
    using submit_print_ipp [OF ex_auth [of "Raised []" "''a.pdf''"] f n c, of empty_store]
    by (simp add: record_outcome_row)
  then show ?thesis by (simp add: empty_store_def ex_env_def ex_sanitize_def)
qed



subsection \<open>Claims about the stored row and the status query\<close>

lemma submit_print_row:
  assumes "auth_required (jwt_decode e) (authorization req) = Inr (uid, uname)"
    and "file_field req = Some f" and "f \<noteq> []"
  shows "\<exists>job. jobs (fst (snd (submit_print cfg e req s))) (next_id s) = Some job \<and>
           user_id job = uid \<and> filename job = secure_filename e f"
proof (cases "ENABLE_IPP cfg")
  case True
  obtain i er where r: "run_ipp_print cfg (lp e) (upload_path cfg (now e) (secure_filename e f)) = (i, er)"
    by (cases "run_ipp_print cfg (lp e) (upload_path cfg (now e) (secure_filename e f))")
  show ?thesis
    using submit_print_ipp [OF assms True, of s] r by (simp add: record_outcome_row)
next
  case False
  show ?thesis
    using submit_print_mock [OF assms False, of s] by (simp add: create_job_row)
qed

text \<open>
  Claim C10. The filename on the new row, and in the answer of a status query by the
  owner, is \<^verbatim>\<open>secure_filename\<close> of the uploaded name. The submission is answered with
  the job id also when that is the empty string, as it is for the upload \<^verbatim>\<open>..\<close> in
  the example.
\<close>

theorem stored_filename_is_sanitized:
  assumes "auth_required (jwt_decode e) (authorization req) = Inr (uid, uname)"
    and "file_field req = Some f" and "f \<noteq> []"
  shows "fst (submit_print cfg e req s) = (Job_id_json (next_id s), 200) \<and>
         (\<exists>job. jobs (fst (snd (submit_print cfg e req s))) (next_id s) = Some job \<and>
            filename job = secure_filename e f \<and>
            job_status (jwt_decode e) (authorization req) (next_id s)
                (fst (snd (submit_print cfg e req s))) =
              (Job_json (next_id s) (secure_filename e f) (status job) (error job) (ipp_job_id job),
               200))"
proof -
  obtain job where j: "jobs (fst (snd (submit_print cfg e req s))) (next_id s) = Some job"
    "user_id job = uid" "filename job = secure_filename e f"
    using submit_print_row [OF assms] by blast
  have "job_status (jwt_decode e) (authorization req) (next_id s)
          (fst (snd (submit_print cfg e req s))) =
        (Job_json (next_id s) (secure_filename e f) (status job) (error job) (ipp_job_id job), 200)"
    using j assms(1) by (simp add: job_status_def query_job_def)
  with j submit_print_response [OF assms] show ?thesis by blast
qed

theorem stored_filename_is_sanitized_witness:
  "fst (submit_print ex_mock (ex_env (Exit_ok [])) (ex_request ''..'') empty_store) =
     (Job_id_json 1, 200) \<and>
   (\<exists>job. jobs (fst (snd (submit_print ex_mock (ex_env (Exit_ok [])) (ex_request ''..'')
        empty_store))) 1 = Some job \<and>
      filename job = [] \<and>
      job_status ex_decode ''Bearer tok-a'' 1
          (fst (snd (submit_print ex_mock (ex_env (Exit_ok [])) (ex_request ''..'') empty_store))) =
        (Job_json 1 [] (status job) (error job) (ipp_job_id job), 200))"
proof -
  have f: "file_field (ex_request ''..'') = Some ''..''" by (simp add: ex_request_def)
  have n: "''..'' \<noteq> []" by simp
  have e: "secure_filename (ex_env (Exit_ok [])) ''..'' = []" "jwt_decode (ex_env (Exit_ok [])) = ex_decode"
    by (simp_all add: ex_env_def ex_sanitize_def)
  have a: "authorization (ex_request ''..'') = ''Bearer tok-a''" by (simp add: ex_request_def)
  have i: "next_id empty_store = 1" by (simp add: empty_store_def)
  show ?thesis
    using stored_filename_is_sanitized [OF ex_auth [of "Exit_ok []" "''..''"] f n,
        where s = empty_store and cfg = ex_mock]
    unfolding e a i .
qed

text \<open>
  Claim C4. A status query for a job that exists, made with the token of a user who
  does not own it, is answered with \<^verbatim>\<open>not found\<close> and 404, and that answer is the one
  the same caller gets for any key under which no job is stored.
\<close>

theorem other_users_job_is_not_found:
  assumes "jobs s job_id = Some job"
    and "auth_required decode auth = Inr (b, uname)"
    and "user_id job \<noteq> b"
  shows "job_status decode auth job_id s = (Error_json ''not found'', 404) \<and>
         (\<forall>s' k. jobs s' k = None \<longrightarrow> job_status decode auth k s' = job_status decode auth job_id s)"
  using assms by (simp add: job_status_def query_job_def)

theorem other_users_job_is_not_found_witness:
  "job_status ex_decode ''Bearer tok-b'' 1
     (fst (snd (submit_print ex_mock (ex_env (Exit_ok [])) (ex_request ''a.pdf'') empty_store))) =
     (Error_json ''not found'', 404) \<and>
   job_status ex_decode ''Bearer tok-b'' 7 empty_store =
     job_status ex_decode ''Bearer tok-b'' 1
       (fst (snd (submit_print ex_mock (ex_env (Exit_ok [])) (ex_request ''a.pdf'') empty_store)))"
proof -
  have f: "file_field (ex_request ''a.pdf'') = Some ''a.pdf''" by (simp add: ex_request_def)
  have n: "''a.pdf'' \<noteq> []" by simp
  have m: "\<not> ENABLE_IPP ex_mock" by (simp add: ex_mock_def)
  have j: "jobs (fst (snd (submit_print ex_mock (ex_env (Exit_ok [])) (ex_request ''a.pdf'')
        empty_store))) 1 =
      Some \<lparr>user_id = 1, filename = ''a.pdf'', status = ''queued'', error = None, ipp_job_id = None\<rparr>"
    using submit_print_mock [OF ex_auth [of "Exit_ok []" "''a.pdf''"] f n m, of empty_store]
    by (simp add: create_job_def empty_store_def ex_env_def ex_sanitize_def)
  have a: "auth_required ex_decode ''Bearer tok-b'' = Inr (2, ''bob'')"
    by (simp add: auth_required_def ex_decode_def startswith_def)
  have u: "user_id \<lparr>user_id = 1, filename = ''a.pdf'', status = ''queued'', error = None,
      ipp_job_id = None\<rparr> \<noteq> 2" by simp
  have e: "jobs empty_store 7 = None" by (simp add: empty_store_def)
  show ?thesis
    using other_users_job_is_not_found [OF j a u] e by blast
qed

text \<open>
  Claim C9. Without \<^verbatim>\<open>ENABLE_IPP\<close> a valid submission creates its job with status
  \<^verbatim>\<open>queued\<close> and starts the completion thread for it; when \<^verbatim>\<open>_async_mock_complete\<close>
  runs on that table, the status is \<^verbatim>\<open>completed\<close> and \<^verbatim>\<open>error\<close> is still \<^verbatim>\<open>None\<close>. On
  any table, whatever other requests have done to it in between, the thread writes
  \<^verbatim>\<open>completed\<close> into the status of its own job and changes nothing else: no other
  column, \<^verbatim>\<open>error\<close> among them, and no other row. The two seconds of sleep are not part
  of the model.
\<close>

theorem simulated_backend_completes:
  assumes "auth_required (jwt_decode e) (authorization req) = Inr (uid, uname)"
    and "file_field req = Some f" and "f \<noteq> []" and "\<not> ENABLE_IPP cfg"
    and "submit_print cfg e req s = (r, s1, t)"
  shows "r = (Job_id_json (next_id s), 200) \<and> t = Some (next_id s) \<and>
         jobs s1 (next_id s) =
           Some \<lparr>user_id = uid, filename = secure_filename e f, status = ''queued'',
                 error = None, ipp_job_id = None\<rparr> \<and>
         jobs (async_mock_complete (next_id s) s1) (next_id s) =
           Some \<lparr>user_id = uid, filename = secure_filename e f, status = ''completed'',
                 error = None, ipp_job_id = None\<rparr> \<and>
         jobs (async_mock_complete (next_id s) s2) k =
           (if k = next_id s
            then map_option (\<lambda>job. job\<lparr>status := ''completed''\<rparr>) (jobs s2 k)
            else jobs s2 k)"
proof -
  have "r = (Job_id_json (next_id s), 200)"
    using submit_print_response [OF assms(1-3), of cfg s] assms(5) by simp
  moreover have s1: "s1 = snd (create_job uid (secure_filename e f) s)" and "t = Some (next_id s)"
    using submit_print_mock [OF assms(1-4), of s] assms(5) by simp_all
  moreover have "jobs s1 (next_id s) =
      Some \<lparr>user_id = uid, filename = secure_filename e f, status = ''queued'',
            error = None, ipp_job_id = None\<rparr>"
    unfolding s1 by (rule create_job_row)
  moreover have "jobs (async_mock_complete (next_id s) s2) k =
      (if k = next_id s
       then map_option (\<lambda>job. job\<lparr>status := ''completed''\<rparr>) (jobs s2 k)
       else jobs s2 k)"
    by (simp add: async_mock_complete_def split: option.splits)
  ultimately show ?thesis by (simp add: async_mock_complete_def)
qed

theorem simulated_backend_completes_witness:
  "\<exists>s1. submit_print ex_mock (ex_env (Exit_ok [])) (ex_request ''a.pdf'') empty_store =
          ((Job_id_json 1, 200), s1, Some 1) \<and>
        jobs s1 1 =
          Some \<lparr>user_id = 1, filename = ''a.pdf'', status = ''queued'', error = None,
                ipp_job_id = None\<rparr> \<and>
        jobs (async_mock_complete 1 s1) 1 =
          Some \<lparr>user_id = 1, filename = ''a.pdf'', status = ''completed'', error = None,
                ipp_job_id = None\<rparr>"
proof -
  have f: "file_field (ex_request ''a.pdf'') = Some ''a.pdf''" by (simp add: ex_request_def)
  have n: "''a.pdf'' \<noteq> []" by simp
  have m: "\<not> ENABLE_IPP ex_mock" by (simp add: ex_mock_def)
  obtain r s1 t where
    p: "submit_print ex_mock (ex_env (Exit_ok [])) (ex_request ''a.pdf'') empty_store = (r, s1, t)"
    by (cases "submit_print ex_mock (ex_env (Exit_ok [])) (ex_request ''a.pdf'') empty_store")
  have i: "next_id empty_store = 1" by (simp add: empty_store_def)
  have e: "secure_filename (ex_env (Exit_ok [])) ''a.pdf'' = ''a.pdf''"
    by (simp add: ex_env_def ex_sanitize_def)
  show ?thesis
    using simulated_backend_completes [OF ex_auth [of "Exit_ok []" "''a.pdf''"] f n m p] p
    unfolding i e by blast
qed

subsection \<open>The job identifier taken from the output of the client\<close>

text \<open>
  Claim C2, as amended. The loop leaves at the first part that passes its test, so the
  identifier is the first part of \<^verbatim>\<open>out.split()\<close> that contains \<^verbatim>\<open>-\<close> and whose text
  after the last \<^verbatim>\<open>-\<close> is a run of digits that is not empty; \<^verbatim>\<open>strip\<close> changes
  nothing on such a part.
\<close>

theorem job_id_is_first_matching_token:
  assumes "ENABLE_IPP cfg" and "PRINTER_NAME cfg \<noteq> [] \<or> PRINTER_URI cfg \<noteq> []"
    and "\<And>cmd. client cmd = Exit_ok out"
    and "py_split out = pre @ t # post"
    and "\<forall>p \<in> set pre. \<not> id_token p" and "id_token t"
  shows "run_ipp_print cfg client path = (Some t, None)"
proof -
  have "t \<in> set (py_split out)" using assms(4) by simp
  then have "py_strip t = t" using py_split_tokens [of t out] by (simp add: py_strip_no_space)
  then have "scan_parts (py_split out) = Some t"
    using scan_parts_first [OF assms(5,6), of post] assms(4) by simp
  then show ?thesis
    using run_ipp_print_cases [OF assms(1,2), of client "Exit_ok out"] assms(3) by simp
qed

theorem job_id_is_first_matching_token_witness:
  "run_ipp_print (ex_ipp ''HP'') (\<lambda>cmd. Exit_ok ''request id is HP-12 (1 file(s)) x-7'') ''/data/uploads/17_a.pdf'' =
     (Some ''HP-12'', None)"
proof -
  have c: "ENABLE_IPP (ex_ipp ''HP'')" by (simp add: ex_ipp_def)
  have p: "PRINTER_NAME (ex_ipp ''HP'') \<noteq> [] \<or> PRINTER_URI (ex_ipp ''HP'') \<noteq> []"
    by (simp add: ex_ipp_def)
  have l: "\<And>cmd. (\<lambda>cmd. Exit_ok ''request id is HP-12 (1 file(s)) x-7'') cmd =
      Exit_ok ''request id is HP-12 (1 file(s)) x-7''" by simp
  have s: "py_split ''request id is HP-12 (1 file(s)) x-7'' =
      [''request'', ''id'', ''is''] @ ''HP-12'' # [''(1'', ''file(s))'', ''x-7'']"
    by (simp add: py_split_def py_isspace_def)
  have n: "\<forall>p \<in> set [''request'', ''id'', ''is'']. \<not> id_token p" by (simp add: id_token_def)
  have y: "id_token ''HP-12''"
    by (simp add: id_token_def py_split_on_def py_isdigit_def py_isdigit_char_def)
  show ?thesis by (rule job_id_is_first_matching_token [OF c p l s n y])
qed

text \<open>
  Claim C2 as it is stated speaks of the last such part. On the output \<^verbatim>\<open>a-1 b-2\<close>
  both parts pass the test; the code returns \<^verbatim>\<open>a-1\<close>, and the last one is \<^verbatim>\<open>b-2\<close>.
\<close>

theorem job_id_is_not_last_matching_token:
  "fst (run_ipp_print (ex_ipp ''HP'') (\<lambda>cmd. Exit_ok ''a-1 b-2'') ''/data/uploads/17_a.pdf'') = Some ''a-1'' \<and>
   last (filter id_token (py_split ''a-1 b-2'')) = ''b-2''"
proof -
  have s: "py_split ''a-1 b-2'' = [''a-1'', ''b-2'']" by (simp add: py_split_def py_isspace_def)
  have y: "id_token ''a-1''" "id_token ''b-2''"
    by (simp_all add: id_token_def py_split_on_def py_isdigit_def py_isdigit_char_def)
  have "py_strip ''a-1'' = ''a-1''" by (simp add: py_strip_def py_isspace_def)
  then have "scan_parts (py_split ''a-1 b-2'') = Some ''a-1''" using s y by simp
  moreover have "last (filter id_token (py_split ''a-1 b-2'')) = ''b-2''" using s y by simp
  ultimately show ?thesis by (simp add: run_ipp_print_def ex_ipp_def)
qed

subsection \<open>What every state of the running service satisfies\<close>

text \<open>
  \<^const>\<open>system_ok\<close> holds at the start and is kept by every step. It says, of every row:
  its key is below the next key, its \<^verbatim>\<open>error\<close> is set exactly when it is \<^verbatim>\<open>failed\<close>,
  it is \<^verbatim>\<open>queued\<close> while its request is inside \<^verbatim>\<open>_run_ipp_print\<close>, and it is \<^verbatim>\<open>queued\<close>
  or \<^verbatim>\<open>completed\<close> when a completion thread was started for it; and that threads are
  started only without \<^verbatim>\<open>ENABLE_IPP\<close>, and the client is called only with it.
\<close>

lemma init_system_ok: "system_ok cfg init_system"
  by (simp add: system_ok_def init_system_def)

lemma accept_ipp_ok:
  assumes "system_ok cfg sys" and "ENABLE_IPP cfg"
  shows "system_ok cfg (sys\<lparr>db := snd (create_job uid fname (db sys)),
            dispatching := (dispatching sys)(next_id (db sys) \<mapsto> path)\<rparr>)"
  using assms unfolding system_ok_def row_ok_def create_job_def
  by (auto simp add: less_Suc_eq)

lemma accept_mock_ok:
  assumes "system_ok cfg sys" and "\<not> ENABLE_IPP cfg"
  shows "system_ok cfg (sys\<lparr>db := snd (create_job uid fname (db sys)),
            scheduled := insert (next_id (db sys)) (scheduled sys)\<rparr>)"
  using assms unfolding system_ok_def row_ok_def create_job_def
  by (auto simp add: less_Suc_eq)

lemma system_okD: "system_ok cfg sys \<Longrightarrow> jobs (db sys) k = Some job \<Longrightarrow> row_ok cfg sys k job"
  by (simp add: system_ok_def)

lemma dispatch_done_ok:
  assumes "system_ok cfg sys" and "dispatching sys job_id = Some path"
  shows "system_ok cfg (sys\<lparr>db := record_outcome job_id r (db sys),
            dispatching := (dispatching sys)(job_id := None)\<rparr>)"
proof -
  obtain i er where r: "r = (i, er)" by (cases r)
  have e: "ENABLE_IPP cfg" "scheduled sys = {}" using assms by (auto simp add: system_ok_def)
  let ?sys' = "sys\<lparr>db := record_outcome job_id r (db sys),
            dispatching := (dispatching sys)(job_id := None)\<rparr>"
  have "row_ok cfg ?sys' k job'" if k: "jobs (db ?sys') k = Some job'" for k job'
  proof (cases "k = job_id")
    case False
    then have "jobs (db sys) k = Some job'" using k by (simp add: record_outcome_others)
    then have "row_ok cfg sys k job'" by (rule system_okD [OF assms(1)])
    then show ?thesis using False e
      by (simp add: row_ok_def r record_outcome_def split: option.splits)
  next
    case True
    then obtain job where j: "jobs (db sys) job_id = Some job"
      using k r by (cases "jobs (db sys) job_id") (simp_all add: record_outcome_def)
    have "row_ok cfg sys job_id job" by (rule system_okD [OF assms(1) j])
    then have q: "job_id < next_id (db sys)" "status job = ''queued''" "\<not> truthy (error job)"
      using assms(2) by (auto simp add: row_ok_def)
    have "job' = (if truthy er then job\<lparr>status := ''failed'', error := er\<rparr>
        else job\<lparr>status := ''printing'', ipp_job_id := Some (or_empty i)\<rparr>)"
      using k True j r by (simp add: record_outcome_def split: if_splits)
    then show ?thesis using q True e j r
      by (simp add: row_ok_def record_outcome_def)
  qed
  then show ?thesis using e by (simp add: system_ok_def)
qed

lemma async_mock_complete_others:
  "k \<noteq> job_id \<Longrightarrow> jobs (async_mock_complete job_id s) k = jobs s k"
  by (simp add: async_mock_complete_def split: option.splits)

lemma completion_ok:
  assumes "system_ok cfg sys" and "job_id \<in> scheduled sys"
  shows "system_ok cfg (sys\<lparr>db := async_mock_complete job_id (db sys)\<rparr>)"
proof -
  have e: "\<not> ENABLE_IPP cfg" "dispatching sys = Map.empty"
    using assms by (auto simp add: system_ok_def)
  let ?sys' = "sys\<lparr>db := async_mock_complete job_id (db sys)\<rparr>"
  have "row_ok cfg ?sys' k job'" if k: "jobs (db ?sys') k = Some job'" for k job'
  proof (cases "k = job_id")
    case False
    then have "jobs (db sys) k = Some job'" using k by (simp add: async_mock_complete_others)
    then have "row_ok cfg sys k job'" by (rule system_okD [OF assms(1)])
    then show ?thesis
      by (simp add: row_ok_def async_mock_complete_def split: option.splits)
  next
    case True
    then obtain job where j: "jobs (db sys) job_id = Some job"
      using k by (cases "jobs (db sys) job_id") (simp_all add: async_mock_complete_def)
    have "row_ok cfg sys job_id job" by (rule system_okD [OF assms(1) j])
    then have q: "job_id < next_id (db sys)" "\<not> truthy (error job)"
      using assms(2) by (auto simp add: row_ok_def)
    have "job' = job\<lparr>status := ''completed''\<rparr>"
      using k True j by (simp add: async_mock_complete_def)
    then show ?thesis using q True e j
      by (simp add: row_ok_def async_mock_complete_def)
  qed
  then show ?thesis using e by (simp add: system_ok_def)
qed

lemma step_ok: "step cfg sys sys' \<Longrightarrow> system_ok cfg sys \<Longrightarrow> system_ok cfg sys'"
proof (induction rule: step.induct)
  case (accept_ipp uid fname sys job_id s1 path)
  then have "job_id = next_id (db sys)" "s1 = snd (create_job uid fname (db sys))"
    by (auto simp add: create_job_def)
  then show ?case using accept_ipp_ok [OF accept_ipp(3,1)] by simp
next
  case (accept_mock uid fname sys job_id s1)
  then have "job_id = next_id (db sys)" "s1 = snd (create_job uid fname (db sys))"
    by (auto simp add: create_job_def)
  then show ?case using accept_mock_ok [OF accept_mock(3,1)] by simp
next
  case (dispatch_done sys job_id path client)
  then show ?case by (simp add: dispatch_done_ok)
next
  case (completion job_id sys)
  then show ?case by (simp add: completion_ok)
qed

lemma reachable_ok: "reachable cfg sys \<Longrightarrow> system_ok cfg sys"
  by (induction rule: reachable.induct) (simp_all add: init_system_ok step_ok)

text \<open>
  The steps are those of the handler: a request that \<^verbatim>\<open>submit_print\<close> accepts takes the
  service, in one step or two, to the table the handler returns, and starts a completion
  thread exactly when the handler does. A request it rejects leaves the table as it was.
\<close>

lemma submit_print_steps:
  assumes "auth_required (jwt_decode e) (authorization req) = Inr (uid, uname)"
    and "file_field req = Some f" and "f \<noteq> []"
  shows "\<exists>sys'. (step cfg)\<^sup>*\<^sup>* sys sys' \<and>
           db sys' = fst (snd (submit_print cfg e req (db sys))) \<and>
           scheduled sys' =
             (case snd (snd (submit_print cfg e req (db sys))) of
                None \<Rightarrow> scheduled sys
              | Some job_id \<Rightarrow> insert job_id (scheduled sys))"
proof (cases "ENABLE_IPP cfg")
  case True
  let ?fname = "secure_filename e f"
  let ?path = "upload_path cfg (now e) ?fname"
  let ?k = "next_id (db sys)"
  let ?sys1 = "sys\<lparr>db := snd (create_job uid ?fname (db sys)),
                   dispatching := (dispatching sys)(?k \<mapsto> ?path)\<rparr>"
  let ?sys2 = "?sys1\<lparr>db := record_outcome ?k (run_ipp_print cfg (lp e) ?path) (db ?sys1),
                     dispatching := (dispatching ?sys1)(?k := None)\<rparr>"
  have c: "create_job uid ?fname (db sys) = (?k, snd (create_job uid ?fname (db sys)))"
    by (simp add: create_job_def)
  have 1: "step cfg sys ?sys1" by (rule accept_ipp [OF True c])
  have d: "dispatching ?sys1 ?k = Some ?path" by simp
  have 2: "step cfg ?sys1 ?sys2" by (rule dispatch_done [OF d])
  have "(step cfg)\<^sup>*\<^sup>* sys ?sys2" using 1 2 by simp
  moreover have "db ?sys2 = fst (snd (submit_print cfg e req (db sys)))"
    using submit_print_ipp [OF assms True, of "db sys"] by simp
  moreover have "scheduled ?sys2 =
      (case snd (snd (submit_print cfg e req (db sys))) of
         None \<Rightarrow> scheduled sys | Some job_id \<Rightarrow> insert job_id (scheduled sys))"
    using submit_print_ipp [OF assms True, of "db sys"] by simp
  ultimately show ?thesis by blast
next
  case False
  let ?fname = "secure_filename e f"
  let ?k = "next_id (db sys)"
  let ?sys1 = "sys\<lparr>db := snd (create_job uid ?fname (db sys)),
                   scheduled := insert ?k (scheduled sys)\<rparr>"
  have c: "create_job uid ?fname (db sys) = (?k, snd (create_job uid ?fname (db sys)))"
    by (simp add: create_job_def)
  have 1: "step cfg sys ?sys1" by (rule accept_mock [OF False c])
  then have "(step cfg)\<^sup>*\<^sup>* sys ?sys1" by simp
  moreover have "db ?sys1 = fst (snd (submit_print cfg e req (db sys)))"
    using submit_print_mock [OF assms False, of "db sys"] by simp
  moreover have "scheduled ?sys1 =
      (case snd (snd (submit_print cfg e req (db sys))) of
         None \<Rightarrow> scheduled sys | Some job_id \<Rightarrow> insert job_id (scheduled sys))"
    using submit_print_mock [OF assms False, of "db sys"] by simp
  ultimately show ?thesis by blast
qed

lemma submit_print_rejected:
  assumes "fst (submit_print cfg e req s) \<noteq> (Job_id_json (next_id s), 200)"
  shows "snd (submit_print cfg e req s) = (s, None)"
  using assms
  by (auto simp add: submit_print_def create_job_def Let_def
      split: sum.splits option.splits if_splits)

text \<open>
  \<^verbatim>\<open>_async_mock_complete\<close> writes \<^verbatim>\<open>completed\<close> over whatever status the row has.
\<close>

lemma async_mock_complete_row:
  "jobs s k = Some job \<Longrightarrow>
   jobs (async_mock_complete k s) k = Some (job\<lparr>status := ''completed''\<rparr>)"
  by (simp add: async_mock_complete_def)

subsection \<open>The two example runs\<close>

lemma ex_failed_reachable: "reachable (ex_ipp []) ex_queued_ipp \<and> reachable (ex_ipp []) ex_failed"
proof -
  have e: "ENABLE_IPP (ex_ipp [])" by (simp add: ex_ipp_def)
  have c: "create_job 1 ''a.pdf'' (db init_system) = (1, snd (create_job 1 ''a.pdf'' (db init_system)))"
    by (simp add: create_job_def init_system_def)
  have 1: "step (ex_ipp []) init_system ex_queued_ipp"
    unfolding ex_queued_ipp_def by (rule accept_ipp [OF e c])
  have d: "dispatching ex_queued_ipp 1 = Some ''/data/uploads/17_a.pdf''"
    by (simp add: ex_queued_ipp_def)
  have 2: "step (ex_ipp []) ex_queued_ipp ex_failed"
    unfolding ex_failed_def by (rule dispatch_done [OF d])
  have r: "reachable (ex_ipp []) ex_queued_ipp" by (rule reachable_step [OF reachable_init 1])
  from r reachable_step [OF r 2] show ?thesis by simp
qed

lemma ex_failed_row:
  "jobs (db ex_failed) 1 =
     Some \<lparr>user_id = 1, filename = ''a.pdf'', status = ''failed'',
           error = Some ''No PRINTER_URI or PRINTER_NAME configured'', ipp_job_id = None\<rparr>"
  by (simp add: ex_failed_def ex_queued_ipp_def init_system_def create_job_def record_outcome_def
      run_ipp_print_def ex_ipp_def)

lemma ex_completed_reachable: "reachable ex_mock ex_queued_mock \<and> reachable ex_mock ex_completed"
proof -
  have e: "\<not> ENABLE_IPP ex_mock" by (simp add: ex_mock_def)
  have c: "create_job 1 ''a.pdf'' (db init_system) = (1, snd (create_job 1 ''a.pdf'' (db init_system)))"
    by (simp add: create_job_def init_system_def)
  have 1: "step ex_mock init_system ex_queued_mock"
    unfolding ex_queued_mock_def by (rule accept_mock [OF e c])
  have d: "1 \<in> scheduled ex_queued_mock" by (simp add: ex_queued_mock_def)
  have 2: "step ex_mock ex_queued_mock ex_completed"
    unfolding ex_completed_def by (rule completion [OF d])
  have r: "reachable ex_mock ex_queued_mock" by (rule reachable_step [OF reachable_init 1])
  from r reachable_step [OF r 2] show ?thesis by simp
qed

lemma ex_completed_row:
  "jobs (db ex_completed) 1 =
     Some \<lparr>user_id = 1, filename = ''a.pdf'', status = ''completed'', error = None,
           ipp_job_id = None\<rparr>"
  by (simp add: ex_completed_def ex_queued_mock_def init_system_def create_job_def
      async_mock_complete_def)

lemma ex_completed_again: "step ex_mock ex_completed ex_completed"
proof -
  have d: "1 \<in> scheduled ex_completed" by (simp add: ex_completed_def ex_queued_mock_def)
  have "async_mock_complete 1 (db ex_completed) = db ex_completed"
    by (simp add: ex_completed_def ex_queued_mock_def init_system_def create_job_def
        async_mock_complete_def)
  then have "ex_completed\<lparr>db := async_mock_complete 1 (db ex_completed)\<rparr> = ex_completed" by simp
  then show ?thesis using completion [OF d, of ex_mock] by simp
qed

subsection \<open>Claims about the life of a job\<close>

text \<open>
  Claim C6. In every state the service reaches, and for every row of the table, the
  \<^verbatim>\<open>error\<close> column holds a string that is not empty exactly when the status is
  \<^verbatim>\<open>failed\<close>. The states between the two sessions of \<^verbatim>\<open>submit_print\<close> are among them.
\<close>

theorem error_set_iff_failed:
  assumes "reachable cfg sys" and "jobs (db sys) job_id = Some job"
  shows "truthy (error job) \<longleftrightarrow> status job = ''failed''"
  using system_okD [OF reachable_ok [OF assms(1)] assms(2)] by (simp add: row_ok_def)

theorem error_set_iff_failed_witness:
  "reachable (ex_ipp []) ex_failed \<and>
   jobs (db ex_failed) 1 =
     Some \<lparr>user_id = 1, filename = ''a.pdf'', status = ''failed'',
           error = Some ''No PRINTER_URI or PRINTER_NAME configured'', ipp_job_id = None\<rparr> \<and>
   (truthy (error \<lparr>user_id = 1, filename = ''a.pdf'', status = ''failed'',
       error = Some ''No PRINTER_URI or PRINTER_NAME configured'', ipp_job_id = None\<rparr>) \<longleftrightarrow>
    status \<lparr>user_id = 1, filename = ''a.pdf'', status = ''failed'',
       error = Some ''No PRINTER_URI or PRINTER_NAME configured'', ipp_job_id = None\<rparr> = ''failed'')"
proof -
  have r: "reachable (ex_ipp []) ex_failed" using ex_failed_reachable by simp
  from r ex_failed_row error_set_iff_failed [OF r ex_failed_row] show ?thesis by blast
qed

lemma step_keeps_settled:
  assumes "step cfg sys sys'" and "system_ok cfg sys"
    and "jobs (db sys) k = Some job" and "status job \<noteq> ''queued''"
  shows "jobs (db sys') k = Some job"
proof -
  have row: "row_ok cfg sys k job" by (rule system_okD [OF assms(2,3)])
  from assms(1) show ?thesis
  proof (cases rule: step.cases)
    case (accept_ipp uid fname job_id s1 path)
    then have "job_id = next_id (db sys)" "s1 = snd (create_job uid fname (db sys))"
      by (auto simp add: create_job_def)
    moreover have "k \<noteq> next_id (db sys)" using row by (simp add: row_ok_def)
    ultimately show ?thesis using accept_ipp(1) assms(3) by (simp add: create_job_others)
  next
    case (accept_mock uid fname job_id s1)
    then have "job_id = next_id (db sys)" "s1 = snd (create_job uid fname (db sys))"
      by (auto simp add: create_job_def)
    moreover have "k \<noteq> next_id (db sys)" using row by (simp add: row_ok_def)
    ultimately show ?thesis using accept_mock(1) assms(3) by (simp add: create_job_others)
  next
    case (dispatch_done job_id path client)
    then have "k \<noteq> job_id" using row assms(4) by (auto simp add: row_ok_def)
    then show ?thesis using dispatch_done(1) assms(3) by (simp add: record_outcome_others)
  next
    case (completion job_id)
    show ?thesis
    proof (cases "k = job_id")
      case True
      then have "status job = ''completed''" using row assms(4) completion(2)
        by (simp add: row_ok_def)
      then have "job\<lparr>status := ''completed''\<rparr> = job" by simp
      then show ?thesis using True completion(1) assms(3)
        by (simp add: async_mock_complete_def)
    next
      case False
      then show ?thesis using completion(1) assms(3) by (simp add: async_mock_complete_others)
    qed
  qed
qed

lemma steps_keep_settled:
  assumes "(step cfg)\<^sup>*\<^sup>* sys sys'" and "system_ok cfg sys"
    and "jobs (db sys) k = Some job" and "status job \<noteq> ''queued''"
  shows "system_ok cfg sys' \<and> jobs (db sys') k = Some job"
  using assms
proof (induction rule: rtranclp_induct)
  case base
  then show ?case by simp
next
  case (step y z)
  then show ?case using step_ok [of cfg y z] step_keeps_settled [of cfg y z k job] by simp
qed

lemma async_mock_complete_twice:
  "async_mock_complete k (async_mock_complete k s) = async_mock_complete k s"
  by (cases "jobs s k") (simp_all add: async_mock_complete_def)

text \<open>
  Claim C1. Once a row has left \<^verbatim>\<open>queued\<close> (it is \<^verbatim>\<open>completed\<close>, \<^verbatim>\<open>failed\<close> or
  \<^verbatim>\<open>printing\<close>), no later steps of the service change it, whatever they are: other
  submissions, the return of a client, or a completion that fires once more for the same
  job. And running \<^verbatim>\<open>_async_mock_complete\<close> a second time on any table changes nothing.

  The function itself does not look at the status it overwrites. The service starts it
  only for a job of the simulated branch, which no other code writes to; this is what
  \<^const>\<open>system_ok\<close> records and what the proof uses.
\<close>

theorem settled_job_never_changes:
  assumes "reachable cfg sys" and "(step cfg)\<^sup>*\<^sup>* sys sys'"
    and "jobs (db sys) job_id = Some job" and "status job \<noteq> ''queued''"
  shows "jobs (db sys') job_id = Some job \<and>
         async_mock_complete k (async_mock_complete k s) = async_mock_complete k s"
  using steps_keep_settled [OF assms(2) reachable_ok [OF assms(1)] assms(3,4)]
  by (simp add: async_mock_complete_twice)

theorem settled_job_never_changes_witness:
  "reachable ex_mock ex_completed \<and> step ex_mock ex_completed ex_completed \<and>
   jobs (db ex_completed) 1 =
     Some \<lparr>user_id = 1, filename = ''a.pdf'', status = ''completed'', error = None,
           ipp_job_id = None\<rparr> \<and>
   async_mock_complete 1 (async_mock_complete 1 (db ex_queued_mock)) =
     async_mock_complete 1 (db ex_queued_mock)"
proof -
  have r: "reachable ex_mock ex_completed" using ex_completed_reachable by simp
  have t: "(step ex_mock)\<^sup>*\<^sup>* ex_completed ex_completed"
    using ex_completed_again by (rule r_into_rtranclp)
  have q: "status \<lparr>user_id = 1, filename = ''a.pdf'', status = ''completed'', error = None,
      ipp_job_id = None\<rparr> \<noteq> ''queued''" by simp
  from r ex_completed_again
    settled_job_never_changes [OF r t ex_completed_row q, of 1 "db ex_queued_mock"]
  show ?thesis by blast
qed

end
